theory Spec2Isabelle
  imports Main
begin

section \<open>Python values\<close>

text \<open>
  The renderers of \<^verbatim>\<open>drfexts/renderers.py\<close> work on the native Python data a serializer
  hands to them. A value is \<^verbatim>\<open>None\<close>, a bool, an int, a str, a list, a tuple, a dict
  with str keys (kept as the list of its items in insertion order), or an object of any
  other class (\<open>PObj\<close>, named by a description: a float, a date, a \<^verbatim>\<open>Decimal\<close>, an
  openpyxl \<^verbatim>\<open>Font\<close>). An object of another class is neither a \<^verbatim>\<open>dict\<close> nor a
  \<^verbatim>\<open>list\<close> instance and has no \<^verbatim>\<open>__getitem__\<close>.
\<close>

datatype pyval =
    PNone
  | PBool bool
  | PInt int
  | PStr string
  | PList "pyval list"
  | PTuple "pyval list"
  | PDict "(string \<times> pyval) list"
  | PObj string

type_synonym bytes = string

text \<open>The exceptions the code can meet; \<open>LibraryError\<close> is any error raised inside a
  collaborating library (the csv writer, openpyxl, orjson).\<close>

datatype py_error =
    AttributeError
  | KeyError pyval
  | TypeError
  | IndexError
  | LibraryError string

subsection \<open>Dict operations\<close>

text \<open>\<^verbatim>\<open>d[k] = v\<close>: an existing key keeps its place, a new key goes last.\<close>

fun setitem :: "string \<Rightarrow> pyval \<Rightarrow> (string \<times> pyval) list \<Rightarrow> (string \<times> pyval) list" where
  "setitem k v [] = [(k, v)]"
| "setitem k v ((k', v') # d) = (if k' = k then (k, v) # d else (k', v') # setitem k v d)"

text \<open>\<^verbatim>\<open>d.pop(k, None)\<close>, the popped value dropped.\<close>

fun pop :: "string \<Rightarrow> (string \<times> pyval) list \<Rightarrow> (string \<times> pyval) list" where
  "pop k [] = []"
| "pop k ((k', v') # d) = (if k' = k then pop k d else (k', v') # pop k d)"

text \<open>\<^verbatim>\<open>dict(item)\<close> for an iterable of key/value pairs: the pairs are stored one after
  the other.\<close>

definition py_dict :: "(string \<times> pyval) list \<Rightarrow> (string \<times> pyval) list" where
  "py_dict item = fold (\<lambda>(k, v) d. setitem k v d) item []"

text \<open>\<^verbatim>\<open>list(d.keys())\<close>\<close>

definition keys :: "(string \<times> pyval) list \<Rightarrow> string list" where
  "keys d = map fst d"

text \<open>\<^verbatim>\<open>d.get(k, default)\<close>\<close>

definition dict_get :: "(string \<times> pyval) list \<Rightarrow> string \<Rightarrow> pyval \<Rightarrow> pyval" where
  "dict_get d k dflt = (case map_of d k of None \<Rightarrow> dflt | Some v \<Rightarrow> v)"

section \<open>BaseExportRenderer\<close>

text \<open>
  A header is \<^verbatim>\<open>None\<close> or a list of column names. A dataset is the sequence of records
  (each one an iterable of key/value pairs) together with its \<^verbatim>\<open>header\<close> attribute, if
  the object has one (\<open>None\<close>: \<^verbatim>\<open>hasattr(data, "header")\<close> is false). A row is the list
  of its cells; the header row holds the column names.
\<close>

type_synonym header = "string list option"

record dataset =
  items :: "(string \<times> pyval) list list"
  header_attr :: "header option"

type_synonym row = "pyval list"

text \<open>\<^verbatim>\<open>isinstance(value, (dict, list))\<close>\<close>

fun isinstance_dict_list :: "pyval \<Rightarrow> bool" where
  "isinstance_dict_list (PDict d) = True"
| "isinstance_dict_list (PList xs) = True"
| "isinstance_dict_list v = False"

text \<open>\<^verbatim>\<open>get_value\<close>; the builtin \<^verbatim>\<open>str\<close> is the parameter \<open>str_of\<close>.\<close>

definition get_value :: "(pyval \<Rightarrow> string) \<Rightarrow> (string \<times> pyval) list \<Rightarrow> string \<Rightarrow> pyval" where
  "get_value str_of item key =
     (let value = dict_get item key (PStr '''')
      in if isinstance_dict_list value then PStr (str_of value) else value)"

text \<open>\<^verbatim>\<open>flatten_data\<close>: one \<^verbatim>\<open>dict(item)\<close> for each item, in order.\<close>

definition flatten_data :: "(string \<times> pyval) list list \<Rightarrow> (string \<times> pyval) list list" where
  "flatten_data data = map py_dict data"

text \<open>Truth value of a header: \<^verbatim>\<open>None\<close> and the empty list are false.\<close>

fun truthy :: "header \<Rightarrow> bool" where
  "truthy None = False"
| "truthy (Some []) = False"
| "truthy (Some (k # ks)) = True"

text \<open>The rows \<^verbatim>\<open>tablize\<close> yields from line 165 on: the header, then one row for each
  flattened record.\<close>

definition table :: "(pyval \<Rightarrow> string) \<Rightarrow> string list \<Rightarrow> (string \<times> pyval) list list \<Rightarrow> row list" where
  "table str_of hdr data =
     map PStr hdr # map (\<lambda>item. map (\<lambda>key. get_value str_of item key) hdr) data"

text \<open>
  \<^verbatim>\<open>tablize\<close>, its generator run to the end. \<^verbatim>\<open>next(data)\<close> runs the generator of
  \<^verbatim>\<open>flatten_data\<close> up to its first \<^verbatim>\<open>yield\<close>, which is \<^verbatim>\<open>dict\<close> of the first item;
  \<^verbatim>\<open>chain\<close> puts that record back in front of the rest. The condition \<^verbatim>\<open>if data\<close> is
  the truth value of a sequence: it has an item.
\<close>

definition tablize :: "(pyval \<Rightarrow> string) \<Rightarrow> dataset \<Rightarrow> header \<Rightarrow> row list" where
  "tablize str_of data header0 =
     (let header = (if \<not> truthy header0
                    then (case header_attr data of Some h \<Rightarrow> h | None \<Rightarrow> header0)
                    else header0)
      in case items data of
           item # rest \<Rightarrow>
             (case header of
                Some (k # ks) \<Rightarrow> table str_of (k # ks) (flatten_data (item # rest))
              | _ \<Rightarrow>
                  (let first_data = py_dict item;
                       hdr = keys first_data
                   in table str_of hdr (first_data # flatten_data rest)))
         | [] \<Rightarrow>
             (case header of
                Some (k # ks) \<Rightarrow> [map PStr (k # ks)]
              | _ \<Rightarrow> []))"

section \<open>The render calls\<close>

text \<open>
  The payload of an export renderer is \<^verbatim>\<open>None\<close>, a mapping (a \<^verbatim>\<open>dict\<close> instance, here
  the partial map from its keys to the datasets stored under them) or any other object,
  which goes to \<^verbatim>\<open>tablize\<close> as the dataset.
\<close>

datatype export_data =
    DataNone
  | DataMapping "string \<rightharpoonup> dataset"
  | DataSeq dataset

text \<open>The Python list \<^verbatim>\<open>[]\<close> that stands in for a missing results key: no items and no
  \<^verbatim>\<open>header\<close> attribute.\<close>

definition empty_list :: dataset where
  "empty_list = \<lparr>items = [], header_attr = None\<rparr>"

text \<open>
  The response and the request of the renderer context. \<open>rendered_data\<close> is the
  attribute \<^verbatim>\<open>_rendered_data\<close> (\<open>None\<close> while it is not set); \<open>request_id\<close> is the
  attribute \<^verbatim>\<open>id\<close> of the request (\<open>None\<close>: the request has no such attribute). A
  response object is true in a condition.
\<close>

record response =
  status_code :: int
  rendered_data :: "pyval option"

record request =
  request_id :: "pyval option"

text \<open>The renderer context, a dict: every field is one key, \<open>None\<close> when the key is
  absent.\<close>

record renderer_ctx =
  ctx_response :: "response option"
  ctx_request :: "request option"
  ctx_header :: "header option"
  ctx_writer_opts :: "(string \<times> pyval) list option"
  ctx_encoding :: "string option"
  ctx_export_style :: "(string \<times> pyval) list option"

text \<open>The context \<^verbatim>\<open>{}\<close>.\<close>

definition empty_context :: renderer_ctx where
  "empty_context =
     \<lparr>ctx_response = None, ctx_request = None, ctx_header = None, ctx_writer_opts = None,
      ctx_encoding = None, ctx_export_style = None\<rparr>"

text \<open>\<^verbatim>\<open>data[self.data_key]\<close> under \<^verbatim>\<open>try\<close>, with \<^verbatim>\<open>except KeyError: data = []\<close>
  (lines 206 to 210 and 251 to 255).\<close>

definition results_of :: "string \<Rightarrow> (string \<rightharpoonup> dataset) \<Rightarrow> dataset" where
  "results_of data_key m = (case m data_key of Some d \<Rightarrow> d | None \<Rightarrow> empty_list)"

subsection \<open>CustomCSVRenderer\<close>

text \<open>The class attributes \<^verbatim>\<open>header\<close>, \<^verbatim>\<open>writer_opts\<close> and \<^verbatim>\<open>data_key\<close>, which a
  subclass may set.\<close>

record csv_renderer =
  csv_header :: header
  csv_writer_opts :: "(string \<times> pyval) list option"
  csv_data_key :: string

definition CustomCSVRenderer :: csv_renderer where
  "CustomCSVRenderer = \<lparr>csv_header = None, csv_writer_opts = None, csv_data_key = ''results''\<rparr>"

text \<open>
  The \<^verbatim>\<open>unicodecsv\<close> library: \<open>csv_writer encoding opts\<close> is
  \<^verbatim>\<open>csv.writer(buffer, encoding=encoding, **opts)\<close>, and \<open>csv_writerow w row\<close> is the bytes
  that \<^verbatim>\<open>w.writerow(row)\<close> adds to the buffer; either may raise.
\<close>

record 'w csv_lib =
  csv_writer :: "string \<Rightarrow> (string \<times> pyval) list \<Rightarrow> py_error + 'w"
  csv_writerow :: "'w \<Rightarrow> row \<Rightarrow> py_error + bytes"

text \<open>\<^verbatim>\<open>for row in table: csv_writer.writerow(row)\<close>, then \<^verbatim>\<open>csv_buffer.getvalue()\<close>.\<close>

fun write_rows :: "('w \<Rightarrow> row \<Rightarrow> py_error + bytes) \<Rightarrow> 'w \<Rightarrow> row list \<Rightarrow> py_error + bytes" where
  "write_rows wr w [] = Inr []"
| "write_rows wr w (r # rs) =
     (case wr w r of
        Inl e \<Rightarrow> Inl e
      | Inr b \<Rightarrow> (case write_rows wr w rs of Inl e \<Rightarrow> Inl e | Inr bs \<Rightarrow> Inr (b @ bs)))"

text \<open>Lines 218 to 223: the writer is built on an empty buffer, every row of the table is
  written, and the buffer is returned.\<close>

definition csv_write ::
  "'w csv_lib \<Rightarrow> string \<Rightarrow> (string \<times> pyval) list \<Rightarrow> row list \<Rightarrow> py_error + bytes" where
  "csv_write lib encoding writer_opts tbl =
     (case csv_writer lib encoding writer_opts of
        Inl e \<Rightarrow> Inl e
      | Inr w \<Rightarrow> write_rows (csv_writerow lib) w tbl)"

definition CustomCSVRenderer_render ::
  "'w csv_lib \<Rightarrow> (pyval \<Rightarrow> string) \<Rightarrow> csv_renderer \<Rightarrow> export_data \<Rightarrow> renderer_ctx option
     \<Rightarrow> py_error + bytes" where
  "CustomCSVRenderer_render lib str_of self data0 renderer_context0 =
     (let renderer_context = (case renderer_context0 of Some c \<Rightarrow> c | None \<Rightarrow> empty_context)
      in case data0 of
           DataNone \<Rightarrow> Inr []
         | _ \<Rightarrow>
           (let data = (case data0 of DataMapping m \<Rightarrow> results_of (csv_data_key self) m
                                    | DataSeq d \<Rightarrow> d
                                    | DataNone \<Rightarrow> empty_list);
                writer_opts = (case ctx_writer_opts renderer_context of
                                 Some opts \<Rightarrow> opts
                               | None \<Rightarrow> (case csv_writer_opts self of Some opts \<Rightarrow> opts | None \<Rightarrow> []));
                header = (case ctx_header renderer_context of Some h \<Rightarrow> h | None \<Rightarrow> csv_header self);
                encoding = (case ctx_encoding renderer_context of Some e \<Rightarrow> e | None \<Rightarrow> ''gbk'')
            in csv_write lib encoding writer_opts (tablize str_of data header)))"

subsection \<open>CustomXLSXRenderer\<close>

record xlsx_renderer =
  xlsx_header :: header
  xlsx_data_key :: string
  export_style :: "(string \<times> pyval) list"

definition CustomXLSXRenderer :: xlsx_renderer where
  "CustomXLSXRenderer =
     \<lparr>xlsx_header = None, xlsx_data_key = ''results'',
      export_style =
        [(''header_font'', PObj ''Font(b=True)''),
         (''header_fill'', PObj ''PatternFill(solid, start_color=87CEFA)''),
         (''header_alignment'', PObj ''Alignment(vertical=center)''),
         (''header_height'', PInt 18),
         (''freeze_header'', PBool True),
         (''freeze_panes'', PStr ''A2'')]\<rparr>"

text \<open>
  The workbook as \<^verbatim>\<open>render\<close> leaves it for \<^verbatim>\<open>workbook.save\<close>: the rows appended to the
  active sheet, the font, fill and alignment given to the cells of row 1 (\<open>None\<close> when
  \<^verbatim>\<open>sheet["1:1"]\<close> has no cell), the height of row 1, \<^verbatim>\<open>freeze_panes\<close> and
  \<^verbatim>\<open>print_title_rows\<close>.
\<close>

record workbook =
  wb_rows :: "row list"
  wb_row1_style :: "(pyval \<times> pyval \<times> pyval) option"
  wb_row1_height :: pyval
  wb_freeze_panes :: pyval
  wb_print_title_rows :: string

text \<open>
  The \<^verbatim>\<open>openpyxl\<close> library: \<open>xl_append row\<close> is the error \<^verbatim>\<open>sheet.append(row)\<close> raises,
  if any; \<open>xl_row1_cells rows\<close> is the number of cells of \<^verbatim>\<open>sheet["1:1"]\<close> once \<open>rows\<close>
  are appended; \<open>xl_set_cell name value\<close> is the error raised by assigning \<open>value\<close> to
  the attribute \<open>name\<close> (\<^verbatim>\<open>font\<close>, \<^verbatim>\<open>fill\<close>, \<^verbatim>\<open>alignment\<close>) of a cell, if any;
  \<open>xl_save\<close> is what setting the height of row 1, \<^verbatim>\<open>freeze_panes\<close> and
  \<^verbatim>\<open>print_title_rows\<close> and then \<^verbatim>\<open>workbook.save(excel_buffer)\<close> leave in the buffer,
  or the error they raise.
\<close>

record xlsx_lib =
  xl_append :: "row \<Rightarrow> py_error option"
  xl_row1_cells :: "row list \<Rightarrow> nat"
  xl_set_cell :: "string \<Rightarrow> pyval \<Rightarrow> py_error option"
  xl_save :: "workbook \<Rightarrow> py_error + bytes"

text \<open>\<^verbatim>\<open>d[k]\<close> on a dict.\<close>

definition dict_getitem :: "(string \<times> pyval) list \<Rightarrow> string \<Rightarrow> py_error + pyval" where
  "dict_getitem d k = (case map_of d k of Some v \<Rightarrow> Inr v | None \<Rightarrow> Inl (KeyError (PStr k)))"

text \<open>\<^verbatim>\<open>for row in table: sheet.append(row)\<close>\<close>

fun append_rows :: "(row \<Rightarrow> py_error option) \<Rightarrow> row list \<Rightarrow> py_error option" where
  "append_rows app [] = None"
| "append_rows app (r # rs) = (case app r of Some e \<Rightarrow> Some e | None \<Rightarrow> append_rows app rs)"

text \<open>One assignment of lines 270 to 272: the value is looked up in the style, then
  assigned to the attribute of the cell.\<close>

definition style_cell ::
  "xlsx_lib \<Rightarrow> (string \<times> pyval) list \<Rightarrow> string \<Rightarrow> string \<Rightarrow> py_error + pyval" where
  "style_cell lib style name key =
     (case dict_getitem style key of
        Inl e \<Rightarrow> Inl e
      | Inr v \<Rightarrow> (case xl_set_cell lib name v of Some e \<Rightarrow> Inl e | None \<Rightarrow> Inr v))"

text \<open>
  The loop over the \<open>n\<close> cells of \<^verbatim>\<open>sheet["1:1"]\<close> (lines 269 to 272): every cell takes
  the same three values, so an error is raised at the first cell or not at all.
\<close>

definition style_row1 ::
  "xlsx_lib \<Rightarrow> nat \<Rightarrow> (string \<times> pyval) list \<Rightarrow> py_error + (pyval \<times> pyval \<times> pyval) option" where
  "style_row1 lib n style =
     (if n = 0 then Inr None
      else case style_cell lib style ''font'' ''header_font'' of
             Inl e \<Rightarrow> Inl e
           | Inr font \<Rightarrow>
             (case style_cell lib style ''fill'' ''header_fill'' of
                Inl e \<Rightarrow> Inl e
              | Inr fill \<Rightarrow>
                (case style_cell lib style ''alignment'' ''header_alignment'' of
                   Inl e \<Rightarrow> Inl e
                 | Inr alignment \<Rightarrow> Inr (Some (font, fill, alignment)))))"

text \<open>Lines 261 to 280: the rows go into the sheet, row 1 is styled from
  \<^verbatim>\<open>export_style\<close>, and the workbook is saved.\<close>

definition xlsx_write :: "xlsx_lib \<Rightarrow> row list \<Rightarrow> (string \<times> pyval) list \<Rightarrow> py_error + bytes" where
  "xlsx_write lib tbl style =
     (case append_rows (xl_append lib) tbl of
        Some e \<Rightarrow> Inl e
      | None \<Rightarrow>
        (case style_row1 lib (xl_row1_cells lib tbl) style of
           Inl e \<Rightarrow> Inl e
         | Inr row1 \<Rightarrow>
           (case dict_getitem style ''header_height'' of
              Inl e \<Rightarrow> Inl e
            | Inr height \<Rightarrow>
                xl_save lib
                  \<lparr>wb_rows = tbl, wb_row1_style = row1, wb_row1_height = height,
                   wb_freeze_panes = dict_get style ''freeze_panes'' (PBool True),
                   wb_print_title_rows = ''1:1''\<rparr>)))"

definition CustomXLSXRenderer_render ::
  "xlsx_lib \<Rightarrow> (pyval \<Rightarrow> string) \<Rightarrow> xlsx_renderer \<Rightarrow> export_data \<Rightarrow> renderer_ctx option
     \<Rightarrow> py_error + bytes" where
  "CustomXLSXRenderer_render lib str_of self data0 renderer_context0 =
     (case data0 of
        DataNone \<Rightarrow> Inr []
      | _ \<Rightarrow>
        (let data = (case data0 of DataMapping m \<Rightarrow> results_of (xlsx_data_key self) m
                                 | DataSeq d \<Rightarrow> d
                                 | DataNone \<Rightarrow> empty_list)
         in case renderer_context0 of
              None \<Rightarrow> Inl AttributeError
            | Some renderer_context \<Rightarrow>
              (let header = (case ctx_header renderer_context of Some h \<Rightarrow> h | None \<Rightarrow> xlsx_header self);
                   style = (case ctx_export_style renderer_context of
                              Some s \<Rightarrow> s
                            | None \<Rightarrow> export_style self)
               in xlsx_write lib (tablize str_of data header) style)))"


subsection \<open>CustomJSONRenderer\<close>

text \<open>\<^verbatim>\<open>is_success\<close> of \<^verbatim>\<open>rest_framework.status\<close>\<close>

definition is_success :: "int \<Rightarrow> bool" where
  "is_success code = (200 \<le> code \<and> code \<le> 299)"

text \<open>\<^verbatim>\<open>data["detail"]\<close>: a key lookup on a dict; a list, a tuple and a str take no str
  index, and the other values take no index at all.\<close>

fun getitem_str :: "pyval \<Rightarrow> string \<Rightarrow> py_error + pyval" where
  "getitem_str (PDict d) k = dict_getitem d k"
| "getitem_str v k = Inl TypeError"

text \<open>\<^verbatim>\<open>data[0]\<close>: the first element of a list or tuple, the first character of a
  str (a character being one \<open>char\<close>), \<^verbatim>\<open>IndexError\<close> when there is none; a dict with str
  keys has no key \<^verbatim>\<open>0\<close>.\<close>

fun getitem_0 :: "pyval \<Rightarrow> py_error + pyval" where
  "getitem_0 (PList []) = Inl IndexError"
| "getitem_0 (PList (x # xs)) = Inr x"
| "getitem_0 (PTuple []) = Inl IndexError"
| "getitem_0 (PTuple (x # xs)) = Inr x"
| "getitem_0 (PStr []) = Inl IndexError"
| "getitem_0 (PStr (c # cs)) = Inr (PStr [c])"
| "getitem_0 (PDict d) = Inl (KeyError (PInt 0))"
| "getitem_0 v = Inl TypeError"

text \<open>
  Lines 97 to 105, the \<^verbatim>\<open>try\<close> statement that reads the error detail. An exception
  raised inside the \<^verbatim>\<open>except TypeError\<close> handler leaves the function.
\<close>

definition error_detail :: "pyval \<Rightarrow> (string \<times> pyval) list \<Rightarrow> py_error + (string \<times> pyval) list" where
  "error_detail data payload =
     (case getitem_str data ''detail'' of
        Inr d \<Rightarrow> Inr (pop ''data'' (setitem ''msg'' d payload))
      | Inl e \<Rightarrow>
        (case e of
           KeyError k \<Rightarrow> Inr (setitem ''msg'' (PStr ''Invalid input.'') payload)
         | TypeError \<Rightarrow>
             (case getitem_0 data of
                Inl e' \<Rightarrow> Inl e'
              | Inr data' \<Rightarrow>
                (case getitem_str data' ''detail'' of
                   Inl e' \<Rightarrow> Inl e'
                 | Inr d \<Rightarrow> Inr (pop ''data'' (setitem ''msg'' d payload))))
         | _ \<Rightarrow> Inl e))"

text \<open>The \<^verbatim>\<open>id\<close> of the request of the context, when
  \<^verbatim>\<open>hasattr(renderer_context.get("request"), "id")\<close> holds.\<close>

definition request_id_of :: "renderer_ctx \<Rightarrow> pyval option" where
  "request_id_of renderer_context =
     (case ctx_request renderer_context of Some rq \<Rightarrow> request_id rq | None \<Rightarrow> None)"

text \<open>
  \<^verbatim>\<open>CustomJSONRenderer.render\<close>. \<open>dumps indent payload\<close> is
  \<^verbatim>\<open>orjson.dumps(payload, default=self.default, option=options)\<close>, \<open>indent\<close> telling
  whether \<^verbatim>\<open>OPT_INDENT_2\<close> was added. The result is what the call returns or raises,
  with the response object as the call leaves it (\<open>None\<close> when the context holds none).
\<close>

definition CustomJSONRenderer_render ::
  "(bool \<Rightarrow> pyval \<Rightarrow> py_error + bytes) \<Rightarrow> pyval \<Rightarrow> string option \<Rightarrow> renderer_ctx option
     \<Rightarrow> (py_error + bytes) \<times> response option" where
  "CustomJSONRenderer_render dumps data media_type renderer_context0 =
     (case renderer_context0 of
        None \<Rightarrow> (Inl AttributeError, None)
      | Some renderer_context \<Rightarrow>
        (case ctx_response renderer_context of
           Some response \<Rightarrow>
             (let payload0 = (case request_id_of renderer_context of
                                Some i \<Rightarrow> setitem ''request_id'' i []
                              | None \<Rightarrow> []);
                  payload1 = setitem ''ret'' (PInt (status_code response)) payload0;
                  payload2 = setitem ''msg'' (PStr ''success'') payload1;
                  payload3 = (if data \<noteq> PNone then setitem ''data'' data payload2 else payload2)
              in case (if \<not> is_success (status_code response)
                       then error_detail data payload3 else Inr payload3) of
                   Inl e \<Rightarrow> (Inl e, Some response)
                 | Inr payload \<Rightarrow>
                     (dumps (media_type = Some ''text/html'') (PDict payload),
                      Some (response\<lparr>status_code := 200, rendered_data := Some (PDict payload)\<rparr>)))
         | None \<Rightarrow>
             (if data = PNone then (Inr [], None)
              else (Inl AttributeError, None))))"

text \<open>The payload shapes the envelope reads an error detail from: a mapping with the key
  \<^verbatim>\<open>detail\<close>, or a list or tuple whose first element is such a mapping.\<close>

fun detail_of :: "pyval \<Rightarrow> pyval option" where
  "detail_of (PDict d) = map_of d ''detail''"
| "detail_of (PList (PDict d # xs)) = map_of d ''detail''"
| "detail_of (PTuple (PDict d # xs)) = map_of d ''detail''"
| "detail_of v = None"

section \<open>Sample collaborators and inputs\<close>

text \<open>
  Stand-ins for the libraries, used where a property is evaluated on a concrete call: a csv
  writer whose rows are the name of its encoding; an openpyxl that takes every row and
  every cell style, has as many cells in row 1 as its widest row (at least one), raises
  \<^verbatim>\<open>TypeError\<close> when \<^verbatim>\<open>freeze_panes\<close> is set to \<^verbatim>\<open>True\<close>, as openpyxl does, and
  otherwise saves to a fixed string, or to one letter for each row of the sheet; an orjson
  that returns a fixed string; and a \<^verbatim>\<open>str\<close> that returns a fixed string.
\<close>

abbreviation sample_csv_lib :: "string csv_lib" where
  "sample_csv_lib \<equiv> \<lparr>csv_writer = (\<lambda>encoding opts. Inr encoding), csv_writerow = (\<lambda>w r. Inr w)\<rparr>"

abbreviation sample_xlsx_lib :: xlsx_lib where
  "sample_xlsx_lib \<equiv>
     \<lparr>xl_append = (\<lambda>r. None),
      xl_row1_cells = (\<lambda>rows. foldr (\<lambda>r n. max (length r) n) rows 1),
      xl_set_cell = (\<lambda>name v. None),
      xl_save = (\<lambda>wb. if wb_freeze_panes wb = PBool True then Inl TypeError else Inr ''xlsx'')\<rparr>"

abbreviation sample_xlsx_lib_rows :: xlsx_lib where
  "sample_xlsx_lib_rows \<equiv>
     \<lparr>xl_append = (\<lambda>r. None),
      xl_row1_cells = (\<lambda>rows. foldr (\<lambda>r n. max (length r) n) rows 1),
      xl_set_cell = (\<lambda>name v. None),
      xl_save = (\<lambda>wb. if wb_freeze_panes wb = PBool True then Inl TypeError
                      else Inr (map (\<lambda>r. CHR ''r'') (wb_rows wb)))\<rparr>"

abbreviation sample_dumps :: "bool \<Rightarrow> pyval \<Rightarrow> py_error + bytes" where
  "sample_dumps \<equiv> (\<lambda>indent payload. Inr ''json'')"

abbreviation sample_str :: "pyval \<Rightarrow> string" where
  "sample_str \<equiv> (\<lambda>v. ''[1, 2]'')"

abbreviation sample_records :: dataset where
  "sample_records \<equiv>
     \<lparr>items = [[(''a'', PInt 1), (''b'', PInt 2)],
               [(''b'', PInt 4), (''a'', PInt 3), (''c'', PInt 5)],
               [(''a'', PList [PInt 1, PInt 2])]],
      header_attr = None\<rparr>"

abbreviation response_with :: "int \<Rightarrow> renderer_ctx" where
  "response_with code \<equiv>
     empty_context\<lparr>ctx_response := Some \<lparr>status_code = code, rendered_data = None\<rparr>\<rparr>"

section \<open>Dicts built from pairs\<close>

lemma setitem_fresh: "k \<notin> fst ` set d \<Longrightarrow> setitem k v d = d @ [(k, v)]"
  by (induction d) auto

lemma fold_setitem_distinct:
  "distinct (map fst (acc @ item)) \<Longrightarrow> fold (\<lambda>(k, v) d. setitem k v d) item acc = acc @ item"
proof (induction item arbitrary: acc)
  case Nil
  then show ?case by simp
next
  case (Cons p item)
  obtain k v where p: "p = (k, v)" by (cases p)
  from Cons.prems have fresh: "k \<notin> fst ` set acc" by (auto simp: p)
  from Cons.prems have "distinct (map fst ((acc @ [(k, v)]) @ item))" by (simp add: p)
  then have "fold (\<lambda>(k, v) d. setitem k v d) item (acc @ [(k, v)]) = (acc @ [(k, v)]) @ item"
    by (rule Cons.IH)
  then show ?case by (simp add: p setitem_fresh [OF fresh])
qed

text \<open>A record that is a dict already (its keys are distinct) is copied as it is.\<close>

lemma py_dict_of_dict: "distinct (map fst item) \<Longrightarrow> py_dict item = item"
  unfolding py_dict_def using fold_setitem_distinct [of "[]" item] by simp

section \<open>The table\<close>

text \<open>
  Claim C1. For a non-empty sequence of records given to \<^verbatim>\<open>tablize\<close> with no explicit
  header and no \<^verbatim>\<open>header\<close> attribute on the data, the first row is the key order of the
  first flattened record, the rows after it are the input records in input order, one
  row for each, the cells of a row are the values under the header keys in header order,
  and so every row is as long as the header.
\<close>

theorem tablize_infers_header:
  assumes "items data \<noteq> []" and "header_attr data = None"
  shows "tablize str_of data None =
           map PStr (keys (py_dict (hd (items data))))
           # map (\<lambda>item. map (get_value str_of (py_dict item)) (keys (py_dict (hd (items data)))))
               (items data)
         \<and> (\<forall>r \<in> set (tablize str_of data None). length r = length (keys (py_dict (hd (items data)))))"
proof -
  from assms(1) obtain item rest where split: "items data = item # rest"
    by (cases "items data") auto
  have eq: "tablize str_of data None =
           map PStr (keys (py_dict item))
           # map (\<lambda>item'. map (get_value str_of (py_dict item')) (keys (py_dict item))) (item # rest)"
    by (simp add: tablize_def split assms(2) table_def flatten_data_def Let_def comp_def)
  show ?thesis
    unfolding split eq by auto
qed

theorem tablize_infers_header_witness:
  "items sample_records \<noteq> [] \<and> header_attr sample_records = None
   \<and> tablize sample_str sample_records None
       = [[PStr ''a'', PStr ''b''], [PInt 1, PInt 2], [PInt 3, PInt 4], [PStr ''[1, 2]'', PStr '''']]"
  using tablize_infers_header [of sample_records sample_str]
  by (simp add: py_dict_def keys_def get_value_def dict_get_def)

text \<open>
  Claim C2, as amended. The cell \<^verbatim>\<open>get_value\<close> returns for a flattened record and a key
  is the empty string when the key is absent, the string representation of the value when
  the value is a \<^verbatim>\<open>dict\<close> or a \<^verbatim>\<open>list\<close>, and the value itself otherwise; no case is an
  error.
\<close>

theorem get_value_cell:
  "get_value str_of item key =
     (case map_of item key of
        None \<Rightarrow> PStr ''''
      | Some (PDict d) \<Rightarrow> PStr (str_of (PDict d))
      | Some (PList xs) \<Rightarrow> PStr (str_of (PList xs))
      | Some v \<Rightarrow> v)"
  by (simp add: get_value_def dict_get_def split: option.splits pyval.splits)

text \<open>
  Claim C2 as stated fails for a nested sequence that is not a \<^verbatim>\<open>list\<close>: the tuple
  \<^verbatim>\<open>(1, 2)\<close> under the key \<^verbatim>\<open>a\<close> is returned as the tuple, not as the string \<^verbatim>\<open>(1, 2)\<close>.
\<close>

theorem get_value_tuple_counterexample:
  "get_value (\<lambda>v. ''(1, 2)'') [(''a'', PTuple [PInt 1, PInt 2])] ''a'' = PTuple [PInt 1, PInt 2]
   \<and> get_value (\<lambda>v. ''(1, 2)'') [(''a'', PTuple [PInt 1, PInt 2])] ''a'' \<noteq> PStr ''(1, 2)''"
  by (simp add: get_value_def dict_get_def)

text \<open>
  Claim C4. On an empty dataset \<^verbatim>\<open>tablize\<close> yields no row at all when there is no header,
  and exactly one row, the header, when a header \<open>H\<close> is available: given as the argument,
  or found as the \<^verbatim>\<open>header\<close> attribute of the data. A header is available when it has a
  column.
\<close>

theorem tablize_empty:
  assumes "items data = []"
  shows "(header_attr data = None \<longrightarrow> tablize str_of data None = [])
       \<and> (H \<noteq> [] \<longrightarrow> tablize str_of data (Some H) = [map PStr H])
       \<and> (H \<noteq> [] \<longrightarrow> header_attr data = Some (Some H) \<longrightarrow> tablize str_of data None = [map PStr H])"
  using assms by (cases H) (simp_all add: tablize_def)

theorem tablize_empty_witness:
  "items empty_list = [] \<and> header_attr empty_list = None
   \<and> tablize sample_str empty_list None = []
   \<and> [''a'', ''b''] \<noteq> []
   \<and> tablize sample_str empty_list (Some [''a'', ''b'']) = [[PStr ''a'', PStr ''b'']]
   \<and> tablize sample_str \<lparr>items = [], header_attr = Some (Some [''a'', ''b''])\<rparr> None
       = [[PStr ''a'', PStr ''b'']]"
  using tablize_empty [of empty_list sample_str "[''a'', ''b'']"]
    tablize_empty [of "\<lparr>items = [], header_attr = Some (Some [''a'', ''b''])\<rparr>" sample_str "[''a'', ''b'']"]
  by (simp add: empty_list_def)

section \<open>The export renderers\<close>

lemma tablize_empty_list:
  "tablize str_of empty_list hdr = (case hdr of Some (k # ks) \<Rightarrow> [map PStr (k # ks)] | _ \<Rightarrow> [])"
  by (simp add: tablize_def empty_list_def split: option.splits list.splits)

lemma write_rows_single: "write_rows wr w [r] = wr w r"
  by (cases "wr w r") simp_all

lemma write_rows_empty_list:
  "write_rows wr w (tablize str_of empty_list hdr)
     = (case hdr of Some (k # ks) \<Rightarrow> wr w (map PStr (k # ks)) | _ \<Rightarrow> Inr [])"
  by (cases hdr rule: truthy.cases)
     (simp_all add: tablize_empty_list write_rows_single del: write_rows.simps(2))

lemma style_row1_found:
  assumes "map_of ov ''header_font'' = Some f" and "map_of ov ''header_fill'' = Some fl"
    and "map_of ov ''header_alignment'' = Some al"
    and "xl_set_cell lib ''font'' f = None" and "xl_set_cell lib ''fill'' fl = None"
    and "xl_set_cell lib ''alignment'' al = None"
  shows "style_row1 lib n ov = Inr (if n = 0 then None else Some (f, fl, al))"
  using assms by (simp add: style_row1_def style_cell_def dict_getitem_def)

text \<open>With the five keys in the style and a library that takes the rows and the cell
  styles, the workbook that is saved holds the table and the values of the style.\<close>

lemma xlsx_write_styled:
  assumes "append_rows (xl_append lib) tbl = None"
    and "map_of style ''header_font'' = Some f" and "map_of style ''header_fill'' = Some fl"
    and "map_of style ''header_alignment'' = Some al" and "map_of style ''header_height'' = Some h"
    and "map_of style ''freeze_panes'' = Some p"
    and "xl_set_cell lib ''font'' f = None" and "xl_set_cell lib ''fill'' fl = None"
    and "xl_set_cell lib ''alignment'' al = None"
  shows "xlsx_write lib tbl style =
           xl_save lib
             \<lparr>wb_rows = tbl,
              wb_row1_style = (if xl_row1_cells lib tbl = 0 then None else Some (f, fl, al)),
              wb_row1_height = h, wb_freeze_panes = p, wb_print_title_rows = ''1:1''\<rparr>"
  using assms by (simp add: xlsx_write_def style_row1_found dict_getitem_def dict_get_def)

text \<open>
  Claim C5. For the CSV and for the spreadsheet renderer, a \<^verbatim>\<open>None\<close> payload renders to
  the empty byte string, and a mapping payload without the results key renders as the empty
  list \<^verbatim>\<open>[]\<close> renders under the same context: the \<^verbatim>\<open>KeyError\<close> of the missing key never
  leaves \<^verbatim>\<open>render\<close>. What is rendered for the missing key is the table of the empty
  dataset. The CSV renderer builds its writer and writes the header row if the context or
  the renderer has a header, and nothing otherwise, so it returns the bytes of that one
  row or no bytes, and raises only what the csv library raises. The spreadsheet renderer,
  given a context, appends that table, styles row 1 from the style mapping and returns
  what the save of this workbook returns.
\<close>

theorem missing_data_recovered:
  "CustomCSVRenderer_render lib str_of self DataNone ctx = Inr []
   \<and> CustomXLSXRenderer_render xlib str_of xself DataNone xctx = Inr []
   \<and> (m (csv_data_key self) = None \<longrightarrow>
        CustomCSVRenderer_render lib str_of self (DataMapping m) ctx
          = CustomCSVRenderer_render lib str_of self (DataSeq empty_list) ctx)
   \<and> (m (xlsx_data_key xself) = None \<longrightarrow>
        CustomXLSXRenderer_render xlib str_of xself (DataMapping m) xctx
          = CustomXLSXRenderer_render xlib str_of xself (DataSeq empty_list) xctx)
   \<and> (m (csv_data_key self) = None \<longrightarrow>
        c = (case ctx of Some x \<Rightarrow> x | None \<Rightarrow> empty_context) \<longrightarrow>
        CustomCSVRenderer_render lib str_of self (DataMapping m) ctx
          = (case csv_writer lib
                    (case ctx_encoding c of Some e \<Rightarrow> e | None \<Rightarrow> ''gbk'')
                    (case ctx_writer_opts c of
                       Some opts \<Rightarrow> opts
                     | None \<Rightarrow> (case csv_writer_opts self of Some opts \<Rightarrow> opts | None \<Rightarrow> [])) of
               Inl err \<Rightarrow> Inl err
             | Inr w \<Rightarrow>
                 (case (case ctx_header c of Some x \<Rightarrow> x | None \<Rightarrow> csv_header self) of
                    Some (k # ks) \<Rightarrow> csv_writerow lib w (map PStr (k # ks))
                  | _ \<Rightarrow> Inr [])))
   \<and> (m (xlsx_data_key xself) = None \<longrightarrow> xctx = Some xc \<longrightarrow>
        style = (case ctx_export_style xc of Some x \<Rightarrow> x | None \<Rightarrow> export_style xself) \<longrightarrow>
        tbl = (case (case ctx_header xc of Some x \<Rightarrow> x | None \<Rightarrow> xlsx_header xself) of
                 Some (k # ks) \<Rightarrow> [map PStr (k # ks)]
               | _ \<Rightarrow> []) \<longrightarrow>
        append_rows (xl_append xlib) tbl = None \<longrightarrow>
        map_of style ''header_font'' = Some f \<longrightarrow> map_of style ''header_fill'' = Some fl \<longrightarrow>
        map_of style ''header_alignment'' = Some al \<longrightarrow> map_of style ''header_height'' = Some h \<longrightarrow>
        map_of style ''freeze_panes'' = Some p \<longrightarrow>
        xl_set_cell xlib ''font'' f = None \<longrightarrow> xl_set_cell xlib ''fill'' fl = None \<longrightarrow>
        xl_set_cell xlib ''alignment'' al = None \<longrightarrow>
        CustomXLSXRenderer_render xlib str_of xself (DataMapping m) xctx
          = xl_save xlib
              \<lparr>wb_rows = tbl,
               wb_row1_style = (if xl_row1_cells xlib tbl = 0 then None else Some (f, fl, al)),
               wb_row1_height = h, wb_freeze_panes = p, wb_print_title_rows = ''1:1''\<rparr>)"
proof (intro conjI impI)
  show "CustomCSVRenderer_render lib str_of self DataNone ctx = Inr []"
    by (simp add: CustomCSVRenderer_render_def)
  show "CustomXLSXRenderer_render xlib str_of xself DataNone xctx = Inr []"
    by (simp add: CustomXLSXRenderer_render_def)
next
  assume "m (csv_data_key self) = None"
  then show "CustomCSVRenderer_render lib str_of self (DataMapping m) ctx
          = CustomCSVRenderer_render lib str_of self (DataSeq empty_list) ctx"
    by (simp add: CustomCSVRenderer_render_def results_of_def)
next
  assume "m (xlsx_data_key xself) = None"
  then show "CustomXLSXRenderer_render xlib str_of xself (DataMapping m) xctx
          = CustomXLSXRenderer_render xlib str_of xself (DataSeq empty_list) xctx"
    by (simp add: CustomXLSXRenderer_render_def results_of_def)
next
  assume miss: "m (csv_data_key self) = None"
    and c: "c = (case ctx of Some x \<Rightarrow> x | None \<Rightarrow> empty_context)"
  show "CustomCSVRenderer_render lib str_of self (DataMapping m) ctx
          = (case csv_writer lib
                    (case ctx_encoding c of Some e \<Rightarrow> e | None \<Rightarrow> ''gbk'')
                    (case ctx_writer_opts c of
                       Some opts \<Rightarrow> opts
                     | None \<Rightarrow> (case csv_writer_opts self of Some opts \<Rightarrow> opts | None \<Rightarrow> [])) of
               Inl err \<Rightarrow> Inl err
             | Inr w \<Rightarrow>
                 (case (case ctx_header c of Some x \<Rightarrow> x | None \<Rightarrow> csv_header self) of
                    Some (k # ks) \<Rightarrow> csv_writerow lib w (map PStr (k # ks))
                  | _ \<Rightarrow> Inr []))"
    unfolding c
    by (simp add: CustomCSVRenderer_render_def results_of_def miss csv_write_def
          write_rows_empty_list Let_def cong: sum.case_cong)
next
  assume miss: "m (xlsx_data_key xself) = None" and x: "xctx = Some xc"
    and style: "style = (case ctx_export_style xc of Some x \<Rightarrow> x | None \<Rightarrow> export_style xself)"
    and tbl: "tbl = (case (case ctx_header xc of Some x \<Rightarrow> x | None \<Rightarrow> xlsx_header xself) of
                 Some (k # ks) \<Rightarrow> [map PStr (k # ks)]
               | _ \<Rightarrow> [])"
    and lib: "append_rows (xl_append xlib) tbl = None"
      "map_of style ''header_font'' = Some f" "map_of style ''header_fill'' = Some fl"
      "map_of style ''header_alignment'' = Some al" "map_of style ''header_height'' = Some h"
      "map_of style ''freeze_panes'' = Some p"
      "xl_set_cell xlib ''font'' f = None" "xl_set_cell xlib ''fill'' fl = None"
      "xl_set_cell xlib ''alignment'' al = None"
  have "CustomXLSXRenderer_render xlib str_of xself (DataMapping m) xctx = xlsx_write xlib tbl style"
    unfolding x style tbl
    by (simp add: CustomXLSXRenderer_render_def results_of_def miss tablize_empty_list)
  then show "CustomXLSXRenderer_render xlib str_of xself (DataMapping m) xctx
          = xl_save xlib
              \<lparr>wb_rows = tbl,
               wb_row1_style = (if xl_row1_cells xlib tbl = 0 then None else Some (f, fl, al)),
               wb_row1_height = h, wb_freeze_panes = p, wb_print_title_rows = ''1:1''\<rparr>"
    by (simp add: xlsx_write_styled [OF lib])
qed

text \<open>The payload \<^verbatim>\<open>{"rows": [...]}\<close> has no \<^verbatim>\<open>results\<close> key. Without a header the CSV
  renderer returns no bytes and the spreadsheet renderer saves a workbook with no rows; with
  the header \<^verbatim>\<open>["a", "b"]\<close> in the context each of them renders the one header row.\<close>

theorem missing_data_recovered_witness:
  "[''rows'' \<mapsto> sample_records] (csv_data_key CustomCSVRenderer) = None
   \<and> [''rows'' \<mapsto> sample_records] (xlsx_data_key CustomXLSXRenderer) = None
   \<and> CustomCSVRenderer_render sample_csv_lib sample_str CustomCSVRenderer
        (DataMapping [''rows'' \<mapsto> sample_records]) None = Inr []
   \<and> CustomCSVRenderer_render sample_csv_lib sample_str CustomCSVRenderer
        (DataMapping [''rows'' \<mapsto> sample_records])
        (Some (empty_context\<lparr>ctx_header := Some (Some [''a'', ''b''])\<rparr>)) = Inr ''gbk''
   \<and> CustomXLSXRenderer_render sample_xlsx_lib sample_str CustomXLSXRenderer
        (DataMapping [''rows'' \<mapsto> sample_records]) (Some empty_context) = Inr ''xlsx''
   \<and> CustomXLSXRenderer_render sample_xlsx_lib_rows sample_str CustomXLSXRenderer
        (DataMapping [''rows'' \<mapsto> sample_records]) (Some empty_context) = Inr ''''
   \<and> CustomXLSXRenderer_render sample_xlsx_lib_rows sample_str CustomXLSXRenderer
        (DataMapping [''rows'' \<mapsto> sample_records])
        (Some (empty_context\<lparr>ctx_header := Some (Some [''a'', ''b''])\<rparr>)) = Inr ''r''
   \<and> CustomCSVRenderer_render sample_csv_lib sample_str CustomCSVRenderer DataNone None = Inr []
   \<and> CustomXLSXRenderer_render sample_xlsx_lib sample_str CustomXLSXRenderer DataNone None = Inr []"
  using missing_data_recovered [where lib = sample_csv_lib and str_of = sample_str
      and self = CustomCSVRenderer and ctx = None and c = empty_context
      and xlib = sample_xlsx_lib and xself = CustomXLSXRenderer
      and xctx = "Some empty_context" and xc = empty_context
      and m = "[''rows'' \<mapsto> sample_records]"
      and style = "export_style CustomXLSXRenderer" and tbl = "[]"
      and f = "PObj ''Font(b=True)''" and fl = "PObj ''PatternFill(solid, start_color=87CEFA)''"
      and al = "PObj ''Alignment(vertical=center)''" and h = "PInt 18" and p = "PStr ''A2''"]
    missing_data_recovered [where lib = sample_csv_lib and str_of = sample_str
      and self = CustomCSVRenderer
      and ctx = "Some (empty_context\<lparr>ctx_header := Some (Some [''a'', ''b''])\<rparr>)"
      and c = "empty_context\<lparr>ctx_header := Some (Some [''a'', ''b''])\<rparr>"
      and xlib = sample_xlsx_lib_rows and xself = CustomXLSXRenderer
      and xctx = "Some (empty_context\<lparr>ctx_header := Some (Some [''a'', ''b''])\<rparr>)"
      and xc = "empty_context\<lparr>ctx_header := Some (Some [''a'', ''b''])\<rparr>"
      and m = "[''rows'' \<mapsto> sample_records]"
      and style = "export_style CustomXLSXRenderer" and tbl = "[[PStr ''a'', PStr ''b'']]"
      and f = "PObj ''Font(b=True)''" and fl = "PObj ''PatternFill(solid, start_color=87CEFA)''"
      and al = "PObj ''Alignment(vertical=center)''" and h = "PInt 18" and p = "PStr ''A2''"]
    missing_data_recovered [where xlib = sample_xlsx_lib_rows and str_of = sample_str
      and xself = CustomXLSXRenderer and xctx = "Some empty_context" and xc = empty_context
      and m = "[''rows'' \<mapsto> sample_records]"
      and style = "export_style CustomXLSXRenderer" and tbl = "[]"
      and f = "PObj ''Font(b=True)''" and fl = "PObj ''PatternFill(solid, start_color=87CEFA)''"
      and al = "PObj ''Alignment(vertical=center)''" and h = "PInt 18" and p = "PStr ''A2''"]
  by (simp add: CustomCSVRenderer_render_def CustomXLSXRenderer_render_def CustomCSVRenderer_def
        CustomXLSXRenderer_def empty_context_def empty_list_def results_of_def tablize_def
        csv_write_def xlsx_write_def style_row1_def style_cell_def dict_getitem_def dict_get_def)

text \<open>
  Claim C8. A CSV render whose context gives no encoding builds its writer with the encoding
  \<^verbatim>\<open>gbk\<close>: it is the render under the same context with \<^verbatim>\<open>encoding\<close> set to \<^verbatim>\<open>gbk\<close>,
  also when the context is \<^verbatim>\<open>None\<close>. For every payload but \<^verbatim>\<open>None\<close>, a mapping or a
  sequence, the bytes returned are those of the rows of the table written by the writer
  that \<^verbatim>\<open>csv.writer\<close> builds with the encoding of the context, and with \<^verbatim>\<open>gbk\<close> when the
  context gives none (a \<^verbatim>\<open>None\<close> payload returns no bytes at all).
\<close>

theorem csv_default_encoding:
  "(ctx_encoding c = None \<longrightarrow>
      CustomCSVRenderer_render lib str_of self data (Some c)
        = CustomCSVRenderer_render lib str_of self data (Some (c\<lparr>ctx_encoding := Some ''gbk''\<rparr>)))
   \<and> CustomCSVRenderer_render lib str_of self data None
        = CustomCSVRenderer_render lib str_of self data
            (Some (empty_context\<lparr>ctx_encoding := Some ''gbk''\<rparr>))
   \<and> (data \<noteq> DataNone \<longrightarrow>
        c' = (case ctx of Some x \<Rightarrow> x | None \<Rightarrow> empty_context) \<longrightarrow>
        opts = (case ctx_writer_opts c' of
                  Some x \<Rightarrow> x
                | None \<Rightarrow> (case csv_writer_opts self of Some x \<Rightarrow> x | None \<Rightarrow> [])) \<longrightarrow>
        tbl = tablize str_of
                (case data of
                   DataMapping m \<Rightarrow> (case m (csv_data_key self) of Some x \<Rightarrow> x | None \<Rightarrow> empty_list)
                 | DataSeq x \<Rightarrow> x
                 | DataNone \<Rightarrow> empty_list)
                (case ctx_header c' of Some x \<Rightarrow> x | None \<Rightarrow> csv_header self) \<longrightarrow>
        (ctx_encoding c' = None \<longrightarrow>
           CustomCSVRenderer_render lib str_of self data ctx
             = (case csv_writer lib ''gbk'' opts of
                  Inl err \<Rightarrow> Inl err
                | Inr w \<Rightarrow> write_rows (csv_writerow lib) w tbl))
        \<and> (ctx_encoding c' = Some e \<longrightarrow>
           CustomCSVRenderer_render lib str_of self data ctx
             = (case csv_writer lib e opts of
                  Inl err \<Rightarrow> Inl err
                | Inr w \<Rightarrow> write_rows (csv_writerow lib) w tbl)))"
proof (intro conjI impI)
  assume "ctx_encoding c = None"
  then show "CustomCSVRenderer_render lib str_of self data (Some c)
        = CustomCSVRenderer_render lib str_of self data (Some (c\<lparr>ctx_encoding := Some ''gbk''\<rparr>))"
    by (cases data)
       (simp_all add: CustomCSVRenderer_render_def cong: option.case_cong)
next
  show "CustomCSVRenderer_render lib str_of self data None
        = CustomCSVRenderer_render lib str_of self data
            (Some (empty_context\<lparr>ctx_encoding := Some ''gbk''\<rparr>))"
    by (cases data)
       (simp_all add: CustomCSVRenderer_render_def empty_context_def cong: option.case_cong)
next
  assume nn: "data \<noteq> DataNone"
    and c: "c' = (case ctx of Some x \<Rightarrow> x | None \<Rightarrow> empty_context)"
    and o: "opts = (case ctx_writer_opts c' of
                  Some x \<Rightarrow> x
                | None \<Rightarrow> (case csv_writer_opts self of Some x \<Rightarrow> x | None \<Rightarrow> []))"
    and t: "tbl = tablize str_of
                (case data of
                   DataMapping m \<Rightarrow> (case m (csv_data_key self) of Some x \<Rightarrow> x | None \<Rightarrow> empty_list)
                 | DataSeq x \<Rightarrow> x
                 | DataNone \<Rightarrow> empty_list)
                (case ctx_header c' of Some x \<Rightarrow> x | None \<Rightarrow> csv_header self)"
    and e: "ctx_encoding c' = None"
  from nn e show "CustomCSVRenderer_render lib str_of self data ctx
             = (case csv_writer lib ''gbk'' opts of
                  Inl err \<Rightarrow> Inl err
                | Inr w \<Rightarrow> write_rows (csv_writerow lib) w tbl)"
    unfolding t o c
    by (cases data)
       (simp_all add: CustomCSVRenderer_render_def csv_write_def results_of_def Let_def
          cong: sum.case_cong)
next
  assume nn: "data \<noteq> DataNone"
    and c: "c' = (case ctx of Some x \<Rightarrow> x | None \<Rightarrow> empty_context)"
    and o: "opts = (case ctx_writer_opts c' of
                  Some x \<Rightarrow> x
                | None \<Rightarrow> (case csv_writer_opts self of Some x \<Rightarrow> x | None \<Rightarrow> []))"
    and t: "tbl = tablize str_of
                (case data of
                   DataMapping m \<Rightarrow> (case m (csv_data_key self) of Some x \<Rightarrow> x | None \<Rightarrow> empty_list)
                 | DataSeq x \<Rightarrow> x
                 | DataNone \<Rightarrow> empty_list)
                (case ctx_header c' of Some x \<Rightarrow> x | None \<Rightarrow> csv_header self)"
    and e: "ctx_encoding c' = Some e"
  from nn e show "CustomCSVRenderer_render lib str_of self data ctx
             = (case csv_writer lib e opts of
                  Inl err \<Rightarrow> Inl err
                | Inr w \<Rightarrow> write_rows (csv_writerow lib) w tbl)"
    unfolding t o c
    by (cases data)
       (simp_all add: CustomCSVRenderer_render_def csv_write_def results_of_def Let_def
          cong: sum.case_cong)
qed

text \<open>The sample writer puts the name of its encoding in place of each row. The dataset
  \<^verbatim>\<open>[{"a": 1}]\<close>, given as it is or as the mapping \<^verbatim>\<open>{"results": [{"a": 1}]}\<close>, has two
  rows: both are written under \<^verbatim>\<open>gbk\<close> by default and under \<^verbatim>\<open>utf-8\<close> when the context
  says so.\<close>

theorem csv_default_encoding_witness:
  "ctx_encoding empty_context = None
   \<and> CustomCSVRenderer_render sample_csv_lib sample_str CustomCSVRenderer
        (DataSeq \<lparr>items = [[(''a'', PInt 1)]], header_attr = None\<rparr>) (Some empty_context)
       = Inr ''gbkgbk''
   \<and> CustomCSVRenderer_render sample_csv_lib sample_str CustomCSVRenderer
        (DataSeq \<lparr>items = [[(''a'', PInt 1)]], header_attr = None\<rparr>) None
       = Inr ''gbkgbk''
   \<and> ctx_encoding (empty_context\<lparr>ctx_encoding := Some ''utf-8''\<rparr>) = Some ''utf-8''
   \<and> CustomCSVRenderer_render sample_csv_lib sample_str CustomCSVRenderer
        (DataSeq \<lparr>items = [[(''a'', PInt 1)]], header_attr = None\<rparr>)
        (Some (empty_context\<lparr>ctx_encoding := Some ''utf-8''\<rparr>))
       = Inr ''utf-8utf-8''
   \<and> DataMapping [''results'' \<mapsto> \<lparr>items = [[(''a'', PInt 1)]], header_attr = None\<rparr>] \<noteq> DataNone
   \<and> CustomCSVRenderer_render sample_csv_lib sample_str CustomCSVRenderer
        (DataMapping [''results'' \<mapsto> \<lparr>items = [[(''a'', PInt 1)]], header_attr = None\<rparr>])
        (Some empty_context)
       = Inr ''gbkgbk''
   \<and> CustomCSVRenderer_render sample_csv_lib sample_str CustomCSVRenderer
        (DataMapping [''results'' \<mapsto> \<lparr>items = [[(''a'', PInt 1)]], header_attr = None\<rparr>])
        (Some (empty_context\<lparr>ctx_encoding := Some ''utf-8''\<rparr>))
       = Inr ''utf-8utf-8''"
  using csv_default_encoding [where c = empty_context and lib = sample_csv_lib
      and str_of = sample_str and self = CustomCSVRenderer
      and data = "DataSeq \<lparr>items = [[(''a'', PInt 1)]], header_attr = None\<rparr>"
      and ctx = "Some (empty_context\<lparr>ctx_encoding := Some ''utf-8''\<rparr>)"
      and c' = "empty_context\<lparr>ctx_encoding := Some ''utf-8''\<rparr>" and e = "''utf-8''"
      and opts = "[]" and tbl = "[[PStr ''a''], [PInt 1]]"]
    csv_default_encoding [where lib = sample_csv_lib
      and str_of = sample_str and self = CustomCSVRenderer
      and data = "DataMapping [''results'' \<mapsto> \<lparr>items = [[(''a'', PInt 1)]], header_attr = None\<rparr>]"
      and ctx = "Some empty_context" and c' = empty_context
      and opts = "[]" and tbl = "[[PStr ''a''], [PInt 1]]"]
    csv_default_encoding [where lib = sample_csv_lib
      and str_of = sample_str and self = CustomCSVRenderer
      and data = "DataMapping [''results'' \<mapsto> \<lparr>items = [[(''a'', PInt 1)]], header_attr = None\<rparr>]"
      and ctx = "Some (empty_context\<lparr>ctx_encoding := Some ''utf-8''\<rparr>)"
      and c' = "empty_context\<lparr>ctx_encoding := Some ''utf-8''\<rparr>" and e = "''utf-8''"
      and opts = "[]" and tbl = "[[PStr ''a''], [PInt 1]]"]
  by (simp add: CustomCSVRenderer_render_def CustomCSVRenderer_def empty_context_def
        tablize_def table_def flatten_data_def py_dict_def keys_def get_value_def dict_get_def
        csv_write_def results_of_def)

text \<open>
  Claim C9. The CSV renderer takes a \<^verbatim>\<open>None\<close> context as the empty context \<^verbatim>\<open>{}\<close>. The
  spreadsheet renderer, given data that is not \<^verbatim>\<open>None\<close> and a \<^verbatim>\<open>None\<close> context, raises
  \<^verbatim>\<open>AttributeError\<close> and returns no bytes; only for \<^verbatim>\<open>None\<close> data does it return the empty
  byte string, without reading the context.
\<close>

theorem null_context_tolerance:
  "CustomCSVRenderer_render lib str_of self data None
     = CustomCSVRenderer_render lib str_of self data (Some empty_context)
   \<and> (data \<noteq> DataNone \<longrightarrow> CustomXLSXRenderer_render xlib str_of xself data None = Inl AttributeError)
   \<and> CustomXLSXRenderer_render xlib str_of xself DataNone None = Inr []"
  by (cases data) (simp_all add: CustomCSVRenderer_render_def CustomXLSXRenderer_render_def)

theorem null_context_tolerance_witness:
  "DataSeq sample_records \<noteq> DataNone
   \<and> CustomXLSXRenderer_render sample_xlsx_lib sample_str CustomXLSXRenderer
        (DataSeq sample_records) None = Inl AttributeError
   \<and> CustomXLSXRenderer_render sample_xlsx_lib sample_str CustomXLSXRenderer
        (DataSeq sample_records) (Some empty_context) = Inr ''xlsx''
   \<and> CustomCSVRenderer_render sample_csv_lib sample_str CustomCSVRenderer
        (DataSeq sample_records) None = Inr ''gbkgbkgbkgbk''"
  using null_context_tolerance [of sample_csv_lib sample_str CustomCSVRenderer
      "DataSeq sample_records" sample_xlsx_lib CustomXLSXRenderer]
  by (simp add: CustomCSVRenderer_render_def CustomXLSXRenderer_render_def CustomCSVRenderer_def
        CustomXLSXRenderer_def empty_context_def tablize_def table_def flatten_data_def
        py_dict_def keys_def get_value_def dict_get_def csv_write_def xlsx_write_def
        style_row1_def style_cell_def dict_getitem_def)

section \<open>The style of the spreadsheet header\<close>





section \<open>The JSON envelope\<close>

lemma error_detail_found:
  assumes "detail_of data = Some d"
  shows "error_detail data payload = Inr (pop ''data'' (setitem ''msg'' d payload))"
  using assms
  by (induction data rule: detail_of.induct)
     (simp_all add: error_detail_def dict_getitem_def)

lemma error_detail_missing_key:
  assumes "map_of kvs ''detail'' = None"
  shows "error_detail (PDict kvs) payload = Inr (setitem ''msg'' (PStr ''Invalid input.'') payload)"
  using assms by (simp add: error_detail_def dict_getitem_def)

lemma detail_of_not_None: "detail_of data = Some d \<Longrightarrow> data \<noteq> PNone"
  by auto

text \<open>
  Claim C6, as amended. In an envelope render whose response has a status code that is not
  a success code: when the payload is a mapping with a \<^verbatim>\<open>detail\<close> entry, or a list or tuple
  whose first element is such a mapping, the envelope is \<^verbatim>\<open>request_id\<close> (if the request
  has an id), \<^verbatim>\<open>ret\<close> with the status code and \<^verbatim>\<open>msg\<close> with that detail, without a
  \<^verbatim>\<open>data\<close> key; when the payload is a mapping without \<^verbatim>\<open>detail\<close>, \<^verbatim>\<open>msg\<close> is
  \<^verbatim>\<open>Invalid input.\<close> and the payload stays under \<^verbatim>\<open>data\<close>. In both cases the status
  code of the response is set to 200, the envelope is recorded on the response, and the
  bytes are those of the serializer on the envelope.
\<close>

theorem json_error_envelope:
  assumes "ctx_response c = Some r" and "\<not> is_success (status_code r)"
  shows "(detail_of data = Some d \<longrightarrow>
          envelope = PDict ((case request_id_of c of Some i \<Rightarrow> [(''request_id'', i)] | None \<Rightarrow> [])
                            @ [(''ret'', PInt (status_code r)), (''msg'', d)]) \<longrightarrow>
          CustomJSONRenderer_render dumps data mt (Some c) =
            (dumps (mt = Some ''text/html'') envelope,
             Some (r\<lparr>status_code := 200, rendered_data := Some envelope\<rparr>)))
       \<and> (map_of kvs ''detail'' = None \<longrightarrow>
          envelope' = PDict ((case request_id_of c of Some i \<Rightarrow> [(''request_id'', i)] | None \<Rightarrow> [])
                             @ [(''ret'', PInt (status_code r)), (''msg'', PStr ''Invalid input.''),
                                (''data'', PDict kvs)]) \<longrightarrow>
          CustomJSONRenderer_render dumps (PDict kvs) mt (Some c) =
            (dumps (mt = Some ''text/html'') envelope',
             Some (r\<lparr>status_code := 200, rendered_data := Some envelope'\<rparr>)))"
proof (intro conjI impI)
  assume d: "detail_of data = Some d"
    and e: "envelope = PDict ((case request_id_of c of Some i \<Rightarrow> [(''request_id'', i)] | None \<Rightarrow> [])
                            @ [(''ret'', PInt (status_code r)), (''msg'', d)])"
  from d have nn: "data \<noteq> PNone" by (rule detail_of_not_None)
  show "CustomJSONRenderer_render dumps data mt (Some c) =
            (dumps (mt = Some ''text/html'') envelope,
             Some (r\<lparr>status_code := 200, rendered_data := Some envelope\<rparr>))"
    using assms nn
    by (cases "request_id_of c")
       (simp_all add: e CustomJSONRenderer_render_def error_detail_found [OF d])
next
  assume k: "map_of kvs ''detail'' = None"
    and e: "envelope' = PDict ((case request_id_of c of Some i \<Rightarrow> [(''request_id'', i)] | None \<Rightarrow> [])
                             @ [(''ret'', PInt (status_code r)), (''msg'', PStr ''Invalid input.''),
                                (''data'', PDict kvs)])"
  show "CustomJSONRenderer_render dumps (PDict kvs) mt (Some c) =
            (dumps (mt = Some ''text/html'') envelope',
             Some (r\<lparr>status_code := 200, rendered_data := Some envelope'\<rparr>))"
    using assms
    by (cases "request_id_of c")
       (simp_all add: e CustomJSONRenderer_render_def error_detail_missing_key [OF k])
qed

text \<open>The payload \<^verbatim>\<open>{"detail": "not found"}\<close> under the status 404, and the payload
  \<^verbatim>\<open>[{"detail": "bad"}]\<close> under the status 400 with a request whose id is 7.\<close>

theorem json_error_envelope_witness:
  "ctx_response (response_with 404) = Some \<lparr>status_code = 404, rendered_data = None\<rparr>
   \<and> \<not> is_success (status_code \<lparr>status_code = 404, rendered_data = None\<rparr>)
   \<and> detail_of (PDict [(''detail'', PStr ''not found'')]) = Some (PStr ''not found'')
   \<and> CustomJSONRenderer_render sample_dumps (PDict [(''detail'', PStr ''not found'')]) None
        (Some (response_with 404))
       = (Inr ''json'',
          Some \<lparr>status_code = 200,
                rendered_data = Some (PDict [(''ret'', PInt 404), (''msg'', PStr ''not found'')])\<rparr>)
   \<and> detail_of (PList [PDict [(''detail'', PStr ''bad'')]]) = Some (PStr ''bad'')
   \<and> CustomJSONRenderer_render sample_dumps (PList [PDict [(''detail'', PStr ''bad'')]]) None
        (Some ((response_with 400)\<lparr>ctx_request := Some \<lparr>request_id = Some (PInt 7)\<rparr>\<rparr>))
       = (Inr ''json'',
          Some \<lparr>status_code = 200,
                rendered_data = Some (PDict [(''request_id'', PInt 7), (''ret'', PInt 400),
                                             (''msg'', PStr ''bad'')])\<rparr>)"
  using json_error_envelope [where c = "response_with 404"
      and r = "\<lparr>status_code = 404, rendered_data = None\<rparr>"
      and data = "PDict [(''detail'', PStr ''not found'')]" and d = "PStr ''not found''"
      and envelope = "PDict [(''ret'', PInt 404), (''msg'', PStr ''not found'')]"
      and dumps = sample_dumps and mt = None]
    json_error_envelope [where
      c = "(response_with 400)\<lparr>ctx_request := Some \<lparr>request_id = Some (PInt 7)\<rparr>\<rparr>"
      and r = "\<lparr>status_code = 400, rendered_data = None\<rparr>"
      and data = "PList [PDict [(''detail'', PStr ''bad'')]]" and d = "PStr ''bad''"
      and envelope = "PDict [(''request_id'', PInt 7), (''ret'', PInt 400), (''msg'', PStr ''bad'')]"
      and dumps = sample_dumps and mt = None]
  by (simp add: empty_context_def is_success_def request_id_of_def)

text \<open>
  Claim C6 as stated fails on a payload without \<^verbatim>\<open>detail\<close>. The payload
  \<^verbatim>\<open>{"name": ["This field is required."]}\<close> under the status 400 gets the message
  \<^verbatim>\<open>Invalid input.\<close>, which is not read from the payload, and its envelope keeps the
  \<^verbatim>\<open>data\<close> key.
\<close>

theorem json_error_envelope_counterexample:
  "CustomJSONRenderer_render sample_dumps
     (PDict [(''name'', PList [PStr ''This field is required.''])]) None
     (Some (response_with 400))
   = (Inr ''json'',
      Some \<lparr>status_code = 200,
            rendered_data = Some (PDict
              [(''ret'', PInt 400), (''msg'', PStr ''Invalid input.''),
               (''data'', PDict [(''name'', PList [PStr ''This field is required.''])])])\<rparr>)"
  by (simp add: CustomJSONRenderer_render_def empty_context_def request_id_of_def is_success_def
        error_detail_def dict_getitem_def)

text \<open>
  Claim C7 says that a payload whose detail cannot be read falls back to the message
  \<^verbatim>\<open>Invalid input.\<close> and that no error leaves the render. The code does so for a mapping
  without \<^verbatim>\<open>detail\<close> only. On the payload \<^verbatim>\<open>[{"name": ["This field is required."]}]\<close>
  under the status 400 the lookup inside the \<^verbatim>\<open>except TypeError\<close> handler raises
  \<^verbatim>\<open>KeyError\<close>, which leaves the render; the response keeps the status 400 and no
  rendered data.
\<close>

theorem json_list_without_detail_raises:
  "CustomJSONRenderer_render dumps
     (PList [PDict [(''name'', PList [PStr ''This field is required.''])]]) mt
     (Some (response_with 400))
   = (Inl (KeyError (PStr ''detail'')), Some \<lparr>status_code = 400, rendered_data = None\<rparr>)"
  by (simp add: CustomJSONRenderer_render_def empty_context_def request_id_of_def is_success_def
        error_detail_def dict_getitem_def)

text \<open>The same holds for the payload \<^verbatim>\<open>None\<close>, the empty list and a list of messages:
  \<^verbatim>\<open>TypeError\<close>, \<^verbatim>\<open>IndexError\<close> and \<^verbatim>\<open>TypeError\<close> leave the render.\<close>

lemma json_other_payloads_raise:
  "fst (CustomJSONRenderer_render dumps PNone mt (Some (response_with 404))) = Inl TypeError"
  "fst (CustomJSONRenderer_render dumps (PList []) mt (Some (response_with 400))) = Inl IndexError"
  "fst (CustomJSONRenderer_render dumps (PList [PStr ''Invalid.'']) mt (Some (response_with 400)))
     = Inl TypeError"
  by (simp_all add: CustomJSONRenderer_render_def empty_context_def request_id_of_def
        is_success_def error_detail_def dict_getitem_def)

text \<open>
  Claim C10. With data that is not \<^verbatim>\<open>None\<close> the render needs a context that holds a
  response. A \<^verbatim>\<open>None\<close> context raises \<^verbatim>\<open>AttributeError\<close> at once (for any data); a
  context without a response raises \<^verbatim>\<open>AttributeError\<close> where the payload is recorded on
  the response; so whenever the render returns bytes for such data, the context holds a
  response.
\<close>

theorem json_requires_response:
  "CustomJSONRenderer_render dumps data mt None = (Inl AttributeError, None)
   \<and> (data \<noteq> PNone \<longrightarrow> ctx_response c = None \<longrightarrow>
        CustomJSONRenderer_render dumps data mt (Some c) = (Inl AttributeError, None))
   \<and> (data \<noteq> PNone \<longrightarrow> fst (CustomJSONRenderer_render dumps data mt ctx) = Inr b \<longrightarrow>
        (\<exists>c' r. ctx = Some c' \<and> ctx_response c' = Some r))"
  by (auto simp add: CustomJSONRenderer_render_def split: option.splits)

theorem json_requires_response_witness:
  "PDict [(''a'', PInt 1)] \<noteq> PNone \<and> ctx_response empty_context = None
   \<and> CustomJSONRenderer_render sample_dumps (PDict [(''a'', PInt 1)]) None (Some empty_context)
       = (Inl AttributeError, None)
   \<and> CustomJSONRenderer_render sample_dumps (PDict [(''a'', PInt 1)]) None None
       = (Inl AttributeError, None)
   \<and> fst (CustomJSONRenderer_render sample_dumps (PDict [(''a'', PInt 1)]) None
        (Some (response_with 200))) = Inr ''json''
   \<and> (\<exists>c' r. Some (response_with 200) = Some c' \<and> ctx_response c' = Some r)"
  using json_requires_response [where dumps = sample_dumps and data = "PDict [(''a'', PInt 1)]"
      and mt = None and c = empty_context and ctx = "Some (response_with 200)" and b = "''json''"]
  by (simp add: CustomJSONRenderer_render_def empty_context_def request_id_of_def is_success_def)

end
